theory Spec2Isabelle
  imports Main
begin

section \<open>Strings and the regular expressions of the dispatcher\<close>

text \<open>
  A JavaScript string is a sequence of code units. The type \<open>string\<close> has the code units
  from 0 to 255: ASCII and the Latin-1 supplement. The built-in string and
  regular-expression operations the dispatcher calls are written out as ECMAScript
  defines them on those code units: \<open>toLowerCase\<close>, \<open>trim\<close>, \<open>startsWith\<close>, \<open>endsWith\<close>,
  the classes \<open>\s\<close> and \<open>\w\<close>, the assertion \<open>\b\<close> and the case folding of the \<open>i\<close>
  flag.
\<close>

definition code :: "char \<Rightarrow> nat" where
  "code c = of_char c"

definition isUpper :: "char \<Rightarrow> bool" where
  "isUpper c = (65 \<le> code c \<and> code c \<le> 90)"

definition isLower :: "char \<Rightarrow> bool" where
  "isLower c = (97 \<le> code c \<and> code c \<le> 122)"

text \<open>The letters of the Latin-1 supplement: all of 0xC0 to 0xDE but the
  multiplication sign are capitals, all of 0xE0 to 0xFE but the division sign are the
  small letters 32 above them.\<close>

definition isUpperLatin :: "char \<Rightarrow> bool" where
  "isUpperLatin c = (192 \<le> code c \<and> code c \<le> 222 \<and> code c \<noteq> 215)"

definition isLowerLatin :: "char \<Rightarrow> bool" where
  "isLowerLatin c = (224 \<le> code c \<and> code c \<le> 254 \<and> code c \<noteq> 247)"

definition isDigit :: "char \<Rightarrow> bool" where
  "isDigit c = (48 \<le> code c \<and> code c \<le> 57)"

text \<open>The class \<open>\w\<close> of a pattern without the \<open>u\<close> flag: \<open>[A-Za-z0-9_]\<close>.\<close>

definition isWordChar :: "char \<Rightarrow> bool" where
  "isWordChar c = (isUpper c \<or> isLower c \<or> isDigit c \<or> c = CHR ''_'')"

text \<open>The class \<open>\s\<close> (and what \<open>trim\<close> removes), white space and line terminators:
  tab, LF, VT, FF, CR, space and the no-break space U+00A0.\<close>

definition isSpace :: "char \<Rightarrow> bool" where
  "isSpace c = ((9 \<le> code c \<and> code c \<le> 13) \<or> code c = 32 \<or> code c = 160)"

text \<open>\<open>toLowerCase\<close>, code unit by code unit.\<close>

definition lowerChar :: "char \<Rightarrow> char" where
  "lowerChar c = (if isUpper c \<or> isUpperLatin c then char_of (code c + 32) else c)"

definition toLowerCase :: "string \<Rightarrow> string" where
  "toLowerCase s = map lowerChar s"

text \<open>
  Canonicalisation of a code unit under the \<open>i\<close> flag (without \<open>u\<close>): the code unit of
  its upper-case form when that is a single code unit, the code unit itself otherwise
  (\<open>0xDF\<close>, whose upper-case form has two). The upper-case forms of \<open>0xB5\<close> and \<open>0xFF\<close>
  are U+039C and U+0178; no other code unit below 256 shares them, so that within this
  alphabet the two are canonical as they are.
\<close>

definition canonicalize :: "char \<Rightarrow> char" where
  "canonicalize c = (if isLower c \<or> isLowerLatin c then char_of (code c - 32) else c)"

definition trimStart :: "string \<Rightarrow> string" where
  "trimStart s = dropWhile isSpace s"

definition trimEnd :: "string \<Rightarrow> string" where
  "trimEnd s = rev (dropWhile isSpace (rev s))"

definition trim :: "string \<Rightarrow> string" where
  "trim s = trimEnd (trimStart s)"

fun startsWith :: "string \<Rightarrow> string \<Rightarrow> bool" where
  "startsWith s [] = True"
| "startsWith [] (p # ps) = False"
| "startsWith (c # cs) (p # ps) = (c = p \<and> startsWith cs ps)"

definition endsWith :: "string \<Rightarrow> string \<Rightarrow> bool" where
  "endsWith s p = startsWith (rev s) (rev p)"

text \<open>\<open>xs.join(sep)\<close> on an array of strings.\<close>

fun join :: "string \<Rightarrow> string list \<Rightarrow> string" where
  "join sep [] = []"
| "join sep [x] = x"
| "join sep (x # y # ys) = x @ sep @ join sep (y # ys)"

subsection \<open>The whole-word pattern\<close>

text \<open>
  Lines 110 and 135 build the source text of a regular expression,
  \<^verbatim>\<open>`\\b${s.replace(/[.*+?^${}()|[\]\\]/g, '\\$&')}\\b`\<close>, and compile it with the \<open>i\<close>
  flag. \<open>escapeRegExp\<close> is the \<open>replace\<close> call: each of the fourteen metacharacters gets a
  backslash in front.
\<close>

definition backslash :: char where
  "backslash = CHR 0x5C"

definition isMeta :: "char \<Rightarrow> bool" where
  "isMeta c = (c \<in> set ''.*+?^${}()|[]'' \<or> c = backslash)"

definition escapeRegExp :: "string \<Rightarrow> string" where
  "escapeRegExp s = concat (map (\<lambda>c. if isMeta c then [backslash, c] else [c]) s)"

definition wordPattern :: "string \<Rightarrow> string" where
  "wordPattern s = [backslash, CHR ''b''] @ escapeRegExp s @ [backslash, CHR ''b'']"

text \<open>
  The compiled form of a pattern: a sequence of atoms. \<open>compile\<close> is the \<open>RegExp\<close>
  constructor on the fragment of the pattern syntax the source can produce: \<open>\b\<close>, an
  escaped metacharacter, and a plain character. Anything else is outside the fragment
  (\<open>None\<close>); \<open>compile_wordPattern\<close> below shows that a pattern built by \<open>wordPattern\<close>
  never leaves it.
\<close>

datatype atom = WordBoundary | Literal char

fun compile :: "string \<Rightarrow> atom list option" where
  "compile [] = Some []"
| "compile [c] = (if isMeta c then None else Some [Literal c])"
| "compile (c # d # rest) =
     (if c = backslash then
        (if d = CHR ''b'' then map_option (Cons WordBoundary) (compile rest)
         else if isMeta d then map_option (Cons (Literal d)) (compile rest)
         else None)
      else if isMeta c then None
      else map_option (Cons (Literal c)) (compile (d # rest)))"

text \<open>
  \<open>\b\<close> holds between the previous code unit (if any) and the next one (if any) when
  exactly one of the two is a word character.
\<close>

definition atBoundary :: "char option \<Rightarrow> string \<Rightarrow> bool" where
  "atBoundary prev rest =
     ((case prev of None \<Rightarrow> False | Some c \<Rightarrow> isWordChar c)
      \<noteq> (case rest of [] \<Rightarrow> False | c # _ \<Rightarrow> isWordChar c))"

text \<open>Matching the atoms at the current position, case-insensitively.\<close>

fun matchHere :: "atom list \<Rightarrow> char option \<Rightarrow> string \<Rightarrow> bool" where
  "matchHere [] prev rest = True"
| "matchHere (WordBoundary # as) prev rest = (atBoundary prev rest \<and> matchHere as prev rest)"
| "matchHere (Literal c # as) prev [] = False"
| "matchHere (Literal c # as) prev (d # rest) =
     (canonicalize c = canonicalize d \<and> matchHere as (Some d) rest)"

text \<open>\<open>re.test(s)\<close>: a match at some start position, tried from left to right.\<close>

fun searchFrom :: "atom list \<Rightarrow> char option \<Rightarrow> string \<Rightarrow> bool" where
  "searchFrom as prev [] = matchHere as prev []"
| "searchFrom as prev (d # rest) = (matchHere as prev (d # rest) \<or> searchFrom as (Some d) rest)"

definition regexTest :: "atom list \<Rightarrow> string \<Rightarrow> bool" where
  "regexTest as s = searchFrom as None s"

text \<open>\<open>new RegExp(wordPattern lit, 'i').test(s)\<close>.\<close>

definition wholeWordTest :: "string \<Rightarrow> string \<Rightarrow> bool" where
  "wholeWordTest lit s =
     (case compile (wordPattern lit) of None \<Rightarrow> False | Some as \<Rightarrow> regexTest as s)"






subsection \<open>Splitting\<close>

text \<open>
  \<open>s.split(/\s+/)\<close> (line 133): the pieces between maximal runs of white space; a run at
  the start or at the end of \<open>s\<close> leaves an empty piece there. The first argument is the
  piece being read, reversed.
\<close>

fun splitWhitespaceFrom :: "string \<Rightarrow> string \<Rightarrow> string list" where
  "splitWhitespaceFrom cur [] = [rev cur]"
| "splitWhitespaceFrom cur [c] = (if isSpace c then [rev cur, []] else [rev (c # cur)])"
| "splitWhitespaceFrom cur (c # d # cs) =
     (if isSpace c then
        (if isSpace d then splitWhitespaceFrom cur (d # cs)
         else rev cur # splitWhitespaceFrom [] (d # cs))
      else splitWhitespaceFrom (c # cur) (d # cs))"

definition splitWhitespace :: "string \<Rightarrow> string list" where
  "splitWhitespace s = splitWhitespaceFrom [] s"

text \<open>\<open>s.split(/\r?\n/)\<close> (line 24).\<close>

fun splitLinesFrom :: "string \<Rightarrow> string \<Rightarrow> string list" where
  "splitLinesFrom cur [] = [rev cur]"
| "splitLinesFrom cur [c] = (if c = CHR 0x0A then [rev cur, []] else [rev (c # cur)])"
| "splitLinesFrom cur (c # d # cs) =
     (if c = CHR 0x0A then rev cur # splitLinesFrom [] (d # cs)
      else if c = CHR 0x0D \<and> d = CHR 0x0A then rev cur # splitLinesFrom [] cs
      else splitLinesFrom (c # cur) (d # cs))"

definition splitLines :: "string \<Rightarrow> string list" where
  "splitLines s = splitLinesFrom [] s"

text \<open>Decimal rendering of a number inside a template literal.\<close>

fun showNat :: "nat \<Rightarrow> string" where
  "showNat n = (if n < 10 then [char_of (48 + n)]
                else showNat (n div 10) @ [char_of (48 + n mod 10)])"

section \<open>parseSkillMetadata\<close>

record SkillMetadata =
  meta_name :: string
  meta_description :: string

text \<open>The text after, and the text before, the first occurrence of a delimiter.\<close>

fun textAfter :: "string \<Rightarrow> string \<Rightarrow> string option" where
  "textAfter d [] = (if d = [] then Some [] else None)"
| "textAfter d (c # cs) =
     (if startsWith (c # cs) d then Some (drop (length d) (c # cs)) else textAfter d cs)"

fun textBefore :: "string \<Rightarrow> string \<Rightarrow> string option" where
  "textBefore d [] = (if d = [] then Some [] else None)"
| "textBefore d (c # cs) =
     (if startsWith (c # cs) d then Some [] else map_option (Cons c) (textBefore d cs))"

text \<open>
  \<open>content.match(/---\s*([\s\S]*?)\s*---/)\<close>, group 1 (line 21). The match starts at the
  first \<open>---\<close>; the greedy \<open>\s*\<close> takes the white space after it; the lazy group stops as
  early as it can, which is in front of the white space that precedes the next \<open>---\<close>.
  There is no match when no second \<open>---\<close> follows.
\<close>

definition frontmatterMatch :: "string \<Rightarrow> string option" where
  "frontmatterMatch content =
     (case textAfter ''---'' content of
        None \<Rightarrow> None
      | Some r \<Rightarrow> map_option trimEnd (textBefore ''---'' (trimStart r)))"

definition doubleQuote :: char where
  "doubleQuote = CHR 0x22"

definition singleQuote :: char where
  "singleQuote = CHR 0x27"

text \<open>Lines 35 to 37: one layer of matching quotes is removed, \<open>value.slice(1, -1).trim()\<close>.\<close>

definition stripQuotes :: "string \<Rightarrow> string" where
  "stripQuotes v =
     (if (startsWith v [doubleQuote] \<and> endsWith v [doubleQuote])
         \<or> (startsWith v [singleQuote] \<and> endsWith v [singleQuote])
      then trim (butlast (tl v)) else v)"

text \<open>The body of the loop over the lines (lines 26 to 41).\<close>

definition parseLine :: "SkillMetadata \<Rightarrow> string \<Rightarrow> SkillMetadata" where
  "parseLine meta line =
     (let trimmedLine = trim line in
      if trimmedLine = [] \<or> trimmedLine = ''---'' then meta
      else
        let fromColon = dropWhile (\<lambda>c. c \<noteq> CHR '':'') trimmedLine in
        if fromColon = [] then meta
        else
          let key = toLowerCase (trim (takeWhile (\<lambda>c. c \<noteq> CHR '':'') trimmedLine));
              val = stripQuotes (trim (tl fromColon))
          in if key = ''name'' then meta\<lparr>meta_name := val\<rparr>
             else if key = ''description'' then meta\<lparr>meta_description := val\<rparr>
             else meta)"

definition parseSkillMetadata :: "string \<Rightarrow> SkillMetadata" where
  "parseSkillMetadata content =
     (case frontmatterMatch content of
        None \<Rightarrow> \<lparr>meta_name = [], meta_description = []\<rparr>
      | Some body \<Rightarrow>
          foldl parseLine \<lparr>meta_name = [], meta_description = []\<rparr> (splitLines body))"

section \<open>isExempt\<close>

definition patternMatches :: "string \<Rightarrow> string \<Rightarrow> bool" where
  "patternMatches skillName pattern =
     (if endsWith pattern ''*'' then startsWith skillName (butlast pattern)
      else skillName = pattern)"

definition isExempt :: "string \<Rightarrow> string list \<Rightarrow> bool" where
  "isExempt skillName patterns = list_ex (patternMatches skillName) patterns"

section \<open>The host: configuration, collaborator, file system\<close>

text \<open>
  \<open>api.pluginConfig\<close> with its optional fields, and \<open>api.runtime?.llm?.generateText\<close>,
  absent or a function. The collaborator sees the router model, the query and the
  candidate list (the prompt of line 92 is built from the last two); its call either
  raises a value or returns an object with optional \<open>text\<close> and \<open>content\<close> fields. The
  handler of line 101 reads \<open>e.message\<close> of the raised value: that is defined for every
  value but \<open>null\<close> and \<open>undefined\<close>, on which the read itself raises a \<open>TypeError\<close>.
  \<open>api.logger\<close> belongs to the interface of the host (the plugin calls it without a
  guard); what it prints is not part of the model.
\<close>

record llm_request =
  req_model :: string
  req_query :: string
  req_candidates :: "string list"

datatype thrown = Nullish | ErrorValue

datatype llm_reply = Raises thrown | Reply "string option" "string option"

record api =
  cfg_exemptions :: "string list option"
  cfg_routerModel :: "string option"
  generateText :: "(llm_request \<Rightarrow> llm_reply) option"

text \<open>
  An element of a parsed JSON array: a string, or a value of another type.
  \<open>llmRecommended.includes(skillName)\<close> compares with \<open>===\<close>, so only a string element
  can equal a candidate name.
\<close>

datatype json = JString string | JOther

text \<open>
  The runtime under the plugin: \<open>readFile p\<close> is the bytes of the file at \<open>p\<close>, or
  \<open>None\<close> when \<open>fs.open\<close> or the read raises; \<open>bufferToString\<close> is the decoding of a
  buffer of bytes to a string (UTF-8; the identity on bytes below 128); \<open>JSON_parse\<close> is
  \<open>JSON.parse\<close> on a text in brackets, \<open>None\<close> when it raises; \<open>maxArguments\<close> is the
  largest number of arguments the engine accepts in one call, beyond which a call with a
  spread argument raises a \<open>RangeError\<close>.
\<close>

record sys =
  readFile :: "string \<Rightarrow> string option"
  bufferToString :: "string \<Rightarrow> string"
  JSON_parse :: "string \<Rightarrow> json list option"
  maxArguments :: int

datatype js_error = TypeError | RangeError

text \<open>\<open>a || b\<close> on an optional string: the empty string and \<open>undefined\<close> are falsy.\<close>

definition orElse :: "string option \<Rightarrow> string \<Rightarrow> string" where
  "orElse a b = (case a of None \<Rightarrow> b | Some t \<Rightarrow> if t = [] then b else t)"

definition configExemptions :: "api \<Rightarrow> string list" where
  "configExemptions a =
     (case cfg_exemptions a of None \<Rightarrow> [''zesty-*'', ''qmd''] | Some ps \<Rightarrow> ps)"

definition routerModel :: "api \<Rightarrow> string" where
  "routerModel a = orElse (cfg_routerModel a) ''github-copilot/gpt-5-mini''"

text \<open>
  \<open>text.match(/\[.*\]/s)\<close> (line 99): from the first opening bracket to the last closing
  bracket behind it.
\<close>

definition bracketMatch :: "string \<Rightarrow> string option" where
  "bracketMatch text =
     (let fromOpen = dropWhile (\<lambda>c. c \<noteq> CHR ''['') text in
      if fromOpen = [] then None
      else
        let inner = rev (dropWhile (\<lambda>c. c \<noteq> CHR '']'') (rev (tl fromOpen))) in
        if inner = [] then None else Some (CHR ''['' # inner))"

text \<open>
  Lines 87 to 102: one call for all the candidates that are not exempt. A missing
  collaborator, a reply without brackets and a text that does not parse leave
  \<open>llmRecommended\<close> empty; so does a call that raises a value with a message to log. When
  the call raises \<open>null\<close> or \<open>undefined\<close>, the handler raises in its turn and the
  function is left.
\<close>

definition semanticRecommend ::
  "sys \<Rightarrow> api \<Rightarrow> string \<Rightarrow> string list \<Rightarrow> js_error + json list" where
  "semanticRecommend y a query nonExempt =
     (if nonExempt = [] then Inr []
      else
        case generateText a of
          None \<Rightarrow> Inr []
        | Some g \<Rightarrow>
            (case g \<lparr>req_model = routerModel a, req_query = query, req_candidates = nonExempt\<rparr> of
               Raises Nullish \<Rightarrow> Inl TypeError
             | Raises ErrorValue \<Rightarrow> Inr []
             | Reply t c \<Rightarrow>
                 (case bracketMatch (orElse t (orElse c [])) of
                    None \<Rightarrow> Inr []
                  | Some m \<Rightarrow> (case JSON_parse y m of None \<Rightarrow> Inr [] | Some arr \<Rightarrow> Inr arr))))"

text \<open>
  Lines 126 to 130: the buffer has 1024 zero bytes, of which the read overwrites a
  prefix; \<open>buffer.toString()\<close> decodes all of them.
\<close>

definition readHead :: "sys \<Rightarrow> string \<Rightarrow> string" where
  "readHead y bytes =
     bufferToString y (take 1024 bytes @ replicate (1024 - length bytes) (CHR 0x00))"

section \<open>selectRelevantSkills\<close>

text \<open>
  The three signals of the scoring loop. Each gives the points it adds to \<open>score\<close> and
  the entries it pushes on \<open>reasons\<close>.
\<close>

definition nameSignal :: "string \<Rightarrow> string \<Rightarrow> nat \<times> string list" where
  "nameSignal skillName qLower =
     (if wholeWordTest skillName qLower then (60, [''Name Match (+60)'']) else (0, []))"

definition llmSignal :: "json list \<Rightarrow> string \<Rightarrow> nat \<times> string list" where
  "llmSignal llmRecommended skillName =
     (if JString skillName \<in> set llmRecommended then (60, [''LLM Recommended (+60)''])
      else (0, []))"

definition queryKeywords :: "string \<Rightarrow> string list" where
  "queryKeywords qLower = filter (\<lambda>w. 2 < length w) (splitWhitespace qLower)"

definition matchedKeywords :: "string \<Rightarrow> string \<Rightarrow> string list" where
  "matchedKeywords qLower desc = filter (\<lambda>k. wholeWordTest k desc) (queryKeywords qLower)"

text \<open>Lines 133 to 143, for a description already read and lower-cased.\<close>

definition descSignal :: "string \<Rightarrow> string \<Rightarrow> nat \<times> string list" where
  "descSignal qLower desc =
     (let matched = matchedKeywords qLower desc in
      if 0 < length matched then
        let descScore = min 30 (length matched * 10) in
        (descScore,
         [''Desc Keywords: '' @ join '', '' matched @ '' (+'' @ showNat descScore @ '')''])
      else (0, []))"

text \<open>
  Lines 123 to 145: the descriptor path of the candidate, the read of its head, the
  metadata. A failed open leaves the score as it is (\<open>catch (e) { /* ignore */ }\<close>).
\<close>

definition descriptorSignal ::
  "sys \<Rightarrow> string \<Rightarrow> (string \<times> string) list \<Rightarrow> string \<Rightarrow> nat \<times> string list" where
  "descriptorSignal y qLower skillFiles skillName =
     (case map_of skillFiles skillName of
        None \<Rightarrow> (0, [])
      | Some skillPath \<Rightarrow>
          if skillPath = [] then (0, [])
          else
            (case readFile y skillPath of
               None \<Rightarrow> (0, [])
             | Some bytes \<Rightarrow>
                 descSignal qLower
                   (toLowerCase (meta_description (parseSkillMetadata (readHead y bytes))))))"

definition scoreSkill ::
  "sys \<Rightarrow> string \<Rightarrow> json list \<Rightarrow> (string \<times> string) list \<Rightarrow> string \<Rightarrow> nat \<times> string list" where
  "scoreSkill y qLower llmRecommended skillFiles skillName =
     (let n = nameSignal skillName qLower;
          l = llmSignal llmRecommended skillName;
          d = descriptorSignal y qLower skillFiles skillName
      in (fst n + fst l + fst d, snd n @ snd l @ snd d))"

text \<open>
  The result of the Selector. \<open>scores\<close> and \<open>breakdown\<close> are plain objects used as
  dictionaries from candidate names: \<open>scores r k\<close> is the number that \<open>scores[k]\<close> holds,
  \<open>breakdown r k\<close> the array that \<open>breakdown[k]\<close> holds, if any. An assignment
  \<open>obj[k] = v\<close> stores \<open>v\<close> under every key but \<open>__proto__\<close>: that key is the accessor of
  the prototype, which ignores a number and takes an array as the new prototype (and
  then gives it back when read).
\<close>

definition setNumber :: "(string \<rightharpoonup> nat) \<Rightarrow> string \<Rightarrow> nat \<Rightarrow> (string \<rightharpoonup> nat)" where
  "setNumber obj k v = (if k = ''__proto__'' then obj else obj(k \<mapsto> v))"

definition setArray ::
  "(string \<rightharpoonup> string list) \<Rightarrow> string \<Rightarrow> string list \<Rightarrow> (string \<rightharpoonup> string list)" where
  "setArray obj k v = obj(k \<mapsto> v)"

record Selection =
  selected :: "string list"
  scores :: "string \<rightharpoonup> nat"
  breakdown :: "string \<rightharpoonup> string list"

text \<open>The loop of lines 77 to 81.\<close>

fun exemptionPass :: "string list \<Rightarrow> Selection \<Rightarrow> Selection" where
  "exemptionPass [] r = r"
| "exemptionPass (s # ss) r =
     exemptionPass ss
       (r\<lparr>selected := selected r @ [s],
          scores := setNumber (scores r) s 999,
          breakdown := setArray (breakdown r) s [''Exemption'']\<rparr>)"

text \<open>The loop of lines 105 to 154.\<close>

fun scoringLoop ::
  "sys \<Rightarrow> string \<Rightarrow> json list \<Rightarrow> (string \<times> string) list \<Rightarrow> string list \<Rightarrow> Selection
     \<Rightarrow> Selection" where
  "scoringLoop y qLower llmRecommended skillFiles [] r = r"
| "scoringLoop y qLower llmRecommended skillFiles (skillName # rest) r =
     (let sr = scoreSkill y qLower llmRecommended skillFiles skillName;
          r1 = r\<lparr>scores := setNumber (scores r) skillName (fst sr),
                 breakdown := setArray (breakdown r) skillName (snd sr)\<rparr>;
          r2 = (if 60 \<le> fst sr then r1\<lparr>selected := selected r1 @ [skillName]\<rparr> else r1)
      in scoringLoop y qLower llmRecommended skillFiles rest r2)"

text \<open>
  \<open>skillFiles\<close> is the \<open>Map\<close> from a candidate name to the path of its descriptor, as
  an association list in insertion order; \<open>candidateNames\<close> are its keys.
\<close>

definition candidateNames :: "(string \<times> string) list \<Rightarrow> string list" where
  "candidateNames skillFiles = map fst skillFiles"

definition exemptNames :: "api \<Rightarrow> (string \<times> string) list \<Rightarrow> string list" where
  "exemptNames a skillFiles =
     filter (\<lambda>s. isExempt s (configExemptions a)) (candidateNames skillFiles)"

definition nonExemptNames :: "api \<Rightarrow> (string \<times> string) list \<Rightarrow> string list" where
  "nonExemptNames a skillFiles =
     filter (\<lambda>s. \<not> (s \<in> set (exemptNames a skillFiles))) (candidateNames skillFiles)"

text \<open>
  The function returns its result, or is left by the raise of the handler of line 101
  (the promise it returns rejects).
\<close>

definition selectRelevantSkills ::
  "sys \<Rightarrow> api \<Rightarrow> string \<Rightarrow> (string \<times> string) list \<Rightarrow> js_error + Selection" where
  "selectRelevantSkills y a query skillFiles =
     (let qLower = toLowerCase query;
          r0 = exemptionPass (exemptNames a skillFiles)
                 \<lparr>selected = [], scores = Map.empty, breakdown = Map.empty\<rparr>;
          nonExempt = nonExemptNames a skillFiles
      in case semanticRecommend y a query nonExempt of
           Inl e \<Rightarrow> Inl e
         | Inr llmRecommended \<Rightarrow>
             Inr (scoringLoop y qLower llmRecommended skillFiles nonExempt r0))"

section \<open>The agent:bootstrap hook\<close>

text \<open>
  An entry of \<open>bootstrapFiles\<close> is an object with a \<open>path\<close> and an optional \<open>content\<close>,
  or a bare path string. A turn of the session has a role and a content.
\<close>

datatype bfile = FileObj string "string option" | BarePath string

record turn =
  turn_role :: string
  turn_content :: string

text \<open>
  Line 176, \<open>file.path || (typeof file === 'string' ? file : '')\<close>, and lines 191 and
  199, \<open>file.path || file\<close>, on which \<open>.match\<close> is then called: an object whose path is
  empty is not a string and has no \<open>match\<close> method.
\<close>

definition pathOrEmpty :: "bfile \<Rightarrow> string" where
  "pathOrEmpty file =
     (case file of FileObj p c \<Rightarrow> if p \<noteq> [] then p else [] | BarePath s \<Rightarrow> s)"

definition pathOrSelf :: "bfile \<Rightarrow> js_error + string" where
  "pathOrSelf file =
     (case file of
        FileObj p c \<Rightarrow> if p \<noteq> [] then Inr p else Inl TypeError
      | BarePath s \<Rightarrow> Inr s)"

text \<open>
  \<open>filePath.match(/[\\/]skills[\\/]([^\\/]+)/)\<close>, group 1: the leftmost separator
  followed by \<open>skills\<close>, a separator and at least one character that is not a separator;
  the group is the longest run of such characters.
\<close>

definition isSep :: "char \<Rightarrow> bool" where
  "isSep c = (c = backslash \<or> c = CHR ''/'')"

definition sepThenName :: "string \<Rightarrow> bool" where
  "sepThenName r = (case r of d # e # _ \<Rightarrow> isSep d \<and> \<not> isSep e | _ \<Rightarrow> False)"

fun skillsMatch :: "string \<Rightarrow> string option" where
  "skillsMatch [] = None"
| "skillsMatch (c # cs) =
     (if isSep c \<and> startsWith cs ''skills'' \<and> sepThenName (drop 6 cs)
      then Some (takeWhile (\<lambda>x. \<not> isSep x) (drop 7 cs))
      else skillsMatch cs)"

text \<open>\<open>Map.prototype.set\<close>: a key already present keeps its place.\<close>

fun mapSet :: "'k \<Rightarrow> 'v \<Rightarrow> ('k \<times> 'v) list \<Rightarrow> ('k \<times> 'v) list" where
  "mapSet k v [] = [(k, v)]"
| "mapSet k v ((k', v') # m) = (if k' = k then (k, v) # m else (k', v') # mapSet k v m)"

text \<open>The loop of lines 175 to 186, on the pair \<open>(skillPaths, nonSkillFiles)\<close>.\<close>

fun groupFiles ::
  "bfile list \<Rightarrow> (string \<times> string) list \<times> bfile list \<Rightarrow> (string \<times> string) list \<times> bfile list"
  where
  "groupFiles [] acc = acc"
| "groupFiles (file # files) (skillPaths, nonSkillFiles) =
     (let filePath = pathOrEmpty file in
      case skillsMatch filePath of
        Some skillName \<Rightarrow>
          groupFiles files
            (if endsWith filePath ''SKILL.md'' then mapSet skillName filePath skillPaths
             else skillPaths,
             nonSkillFiles)
      | None \<Rightarrow> groupFiles files (skillPaths, nonSkillFiles @ [file]))"

text \<open>
  Lines 189 to 193: \<open>map\<close>, \<open>filter(Boolean)\<close> and the round trip through a \<open>Set\<close>,
  which keeps the first occurrence of each name.
\<close>

fun matchAll :: "bfile list \<Rightarrow> js_error + string option list" where
  "matchAll [] = Inr []"
| "matchAll (f # fs) =
     (case pathOrSelf f of
        Inl e \<Rightarrow> Inl e
      | Inr p \<Rightarrow> (case matchAll fs of Inl e \<Rightarrow> Inl e | Inr ms \<Rightarrow> Inr (skillsMatch p # ms)))"

definition truthyNames :: "string option list \<Rightarrow> string list" where
  "truthyNames ms =
     concat (map (\<lambda>m. case m of None \<Rightarrow> [] | Some n \<Rightarrow> if n = [] then [] else [n]) ms)"

fun uniqFrom :: "'a list \<Rightarrow> 'a list \<Rightarrow> 'a list" where
  "uniqFrom seen [] = seen"
| "uniqFrom seen (x # xs) = (if x \<in> set seen then uniqFrom seen xs else uniqFrom (seen @ [x]) xs)"

definition allSkillNames :: "bfile list \<Rightarrow> js_error + string list" where
  "allSkillNames bootstrapFiles =
     (case matchAll bootstrapFiles of
        Inl e \<Rightarrow> Inl e
      | Inr ms \<Rightarrow> Inr (uniqFrom [] (truthyNames ms)))"

text \<open>The loop of lines 198 to 204, on \<open>keptFiles\<close>.\<close>

fun keepSelected :: "string list \<Rightarrow> bfile list \<Rightarrow> bfile list \<Rightarrow> js_error + bfile list" where
  "keepSelected sel [] keptFiles = Inr keptFiles"
| "keepSelected sel (file # files) keptFiles =
     (case pathOrSelf file of
        Inl e \<Rightarrow> Inl e
      | Inr filePath \<Rightarrow>
          (case skillsMatch filePath of
             Some n \<Rightarrow>
               if n \<in> set sel then keepSelected sel files (keptFiles @ [file])
               else keepSelected sel files keptFiles
           | None \<Rightarrow> keepSelected sel files keptFiles))"

text \<open>Lines 168 and 169.\<close>

definition lastUserMsg :: "turn list option \<Rightarrow> turn option" where
  "lastUserMsg sessionEntry =
     find (\<lambda>m. turn_role m = ''user'') (rev (case sessionEntry of None \<Rightarrow> [] | Some h \<Rightarrow> h))"

definition queryOf :: "turn list option \<Rightarrow> string" where
  "queryOf sessionEntry =
     (case lastUserMsg sessionEntry of Some m \<Rightarrow> turn_content m | None \<Rightarrow> [])"

text \<open>The record of lines 210 to 213.\<close>

definition reportFile :: "string list \<Rightarrow> bfile" where
  "reportFile sel =
     FileObj ''zesty-dispatcher-report.md''
       (Some ([CHR 0x0A, CHR 0x0A] @ ''[Zesty Dispatcher] Active Skills (Threshold 60): ''
              @ join '', '' sel @ ''.'' @ [CHR 0x0A]))"

subsection \<open>The body as a computation on the caller's array\<close>

text \<open>
  The hook mutates the array \<open>bootstrapFiles\<close> that the host owns. The array has its
  elements and may have been made non-extensible by its owner
  (\<open>Object.preventExtensions\<close>): its elements can then still be removed, and adding one
  raises a \<open>TypeError\<close> (the plugin is a module, hence strict code). Sealed and frozen
  arrays are not among the states of the model.

  A step of the body takes the current state of that array and gives its outcome, a
  value or a raised error, with the state it leaves. A raise keeps the state as it is at
  that moment.
\<close>

record js_array =
  elems :: "bfile list"
  extensible :: bool

type_synonym 'a step = "js_array \<Rightarrow> (js_error + 'a) \<times> js_array"

definition ret :: "'a \<Rightarrow> 'a step" where
  "ret x = (\<lambda>s. (Inr x, s))"

definition raise :: "js_error \<Rightarrow> 'a step" where
  "raise e = (\<lambda>s. (Inl e, s))"

definition bind :: "'a step \<Rightarrow> ('a \<Rightarrow> 'b step) \<Rightarrow> 'b step" where
  "bind m f = (\<lambda>s. case m s of (Inl e, s') \<Rightarrow> (Inl e, s') | (Inr x, s') \<Rightarrow> f x s')"

definition orRaise :: "js_error + 'a \<Rightarrow> 'a step" where
  "orRaise r = (case r of Inl e \<Rightarrow> raise e | Inr x \<Rightarrow> ret x)"

definition readArray :: "bfile list step" where
  "readArray = (\<lambda>s. (Inr (elems s), s))"

text \<open>\<open>bootstrapFiles.length = 0\<close>.\<close>

definition clearArray :: "unit step" where
  "clearArray = (\<lambda>s. (Inr (), s\<lparr>elems := []\<rparr>))"

text \<open>
  \<open>bootstrapFiles.push(...xs)\<close> and \<open>bootstrapFiles.push(x)\<close>: the call is refused with a
  \<open>RangeError\<close> when the spread has more arguments than the engine accepts; the first
  element to add raises a \<open>TypeError\<close> on an array that is not extensible.
\<close>

definition pushAll :: "sys \<Rightarrow> bfile list \<Rightarrow> unit step" where
  "pushAll y xs =
     (\<lambda>s. if maxArguments y < int (length xs) then (Inl RangeError, s)
          else if xs \<noteq> [] \<and> \<not> extensible s then (Inl TypeError, s)
          else (Inr (), s\<lparr>elems := elems s @ xs\<rparr>))"

text \<open>
  \<open>try { ... } catch (error) { api.logger.error(...) }\<close>: the error is logged and dropped.
  Every error that reaches this handler is an error object (a \<open>TypeError\<close> or a
  \<open>RangeError\<close> of the runtime), so that reading its message does not raise.
\<close>

definition catchAll :: "unit step \<Rightarrow> unit step" where
  "catchAll m = (\<lambda>s. case m s of (Inl e, s') \<Rightarrow> (Inr (), s') | (Inr x, s') \<Rightarrow> (Inr x, s'))"

text \<open>
  Lines 172 to 204: from the array to \<open>keptFiles\<close> and \<open>selected\<close>. The three raises of
  this part are the two \<open>.match\<close> calls on an object without a path and the handler of
  the Selector.
\<close>

definition hookPrepare :: "sys \<Rightarrow> api \<Rightarrow> string \<Rightarrow> (bfile list \<times> string list) step" where
  "hookPrepare y a query =
     bind readArray (\<lambda>bootstrapFiles.
       let g = groupFiles bootstrapFiles ([], []);
           skillPaths = fst g;
           nonSkillFiles = snd g
       in
       bind (orRaise (allSkillNames bootstrapFiles)) (\<lambda>allNames.
         bind (orRaise (selectRelevantSkills y a query skillPaths)) (\<lambda>r.
           bind (orRaise (keepSelected (selected r) bootstrapFiles nonSkillFiles)) (\<lambda>keptFiles.
             ret (keptFiles, selected r)))))"

text \<open>Lines 206 to 214: the writes to the array.\<close>

definition hookRewrite :: "sys \<Rightarrow> bfile list \<Rightarrow> string list \<Rightarrow> unit step" where
  "hookRewrite y keptFiles sel =
     bind clearArray (\<lambda>_.
       bind (pushAll y keptFiles) (\<lambda>_.
         if sel \<noteq> [] then pushAll y [reportFile sel] else ret ()))"

text \<open>Lines 167 to 214, the body of the \<open>try\<close>.\<close>

definition hookBody :: "sys \<Rightarrow> api \<Rightarrow> turn list option \<Rightarrow> unit step" where
  "hookBody y a sessionEntry =
     (let query = queryOf sessionEntry in
      if query = [] then ret ()
      else bind (hookPrepare y a query) (\<lambda>(keptFiles, sel). hookRewrite y keptFiles sel))"

text \<open>Lines 165 to 218: the registered handler.\<close>

definition bootstrapHook :: "sys \<Rightarrow> api \<Rightarrow> turn list option \<Rightarrow> unit step" where
  "bootstrapHook y a sessionEntry = catchAll (hookBody y a sessionEntry)"

text \<open>What the hook hands to the Selector: the keys of \<open>skillPaths\<close>.\<close>

definition selectorCandidates :: "bfile list \<Rightarrow> string list" where
  "selectorCandidates bootstrapFiles = candidateNames (fst (groupFiles bootstrapFiles ([], [])))"

section \<open>Notions of the specification\<close>

text \<open>
  The recommendation set of a run of the Selector that returns, and the total score of
  a candidate in that run: what the scoring loop computes for it (the variable \<open>score\<close>
  at line 151).
\<close>

definition recommended :: "sys \<Rightarrow> api \<Rightarrow> string \<Rightarrow> (string \<times> string) list \<Rightarrow> json list" where
  "recommended y a query skillFiles =
     (case semanticRecommend y a query (nonExemptNames a skillFiles) of
        Inl e \<Rightarrow> []
      | Inr l \<Rightarrow> l)"

definition totalScore :: "sys \<Rightarrow> api \<Rightarrow> string \<Rightarrow> (string \<times> string) list \<Rightarrow> string \<Rightarrow> nat" where
  "totalScore y a query skillFiles c =
     fst (scoreSkill y (toLowerCase query) (recommended y a query skillFiles) skillFiles c)"

text \<open>
  The semantic signal is unavailable: no collaborator is configured, its call raises, or
  its reply holds no array that parses.
\<close>

definition llmUnavailable :: "sys \<Rightarrow> api \<Rightarrow> string \<Rightarrow> string list \<Rightarrow> bool" where
  "llmUnavailable y a query nonExempt =
     (case generateText a of
        None \<Rightarrow> True
      | Some g \<Rightarrow>
          (case g \<lparr>req_model = routerModel a, req_query = query, req_candidates = nonExempt\<rparr> of
             Raises v \<Rightarrow> True
           | Reply t c \<Rightarrow>
               (case bracketMatch (orElse t (orElse c [])) of
                  None \<Rightarrow> True
                | Some m \<Rightarrow> JSON_parse y m = None)))"

text \<open>
  An exception is raised before the rewrite of the list begins: there is a query, and
  the part of the body in front of line 206 raises.
\<close>

definition raisedBeforeRewrite ::
  "sys \<Rightarrow> api \<Rightarrow> turn list option \<Rightarrow> js_array \<Rightarrow> js_error \<Rightarrow> bool" where
  "raisedBeforeRewrite y a sessionEntry arr e =
     (queryOf sessionEntry \<noteq> [] \<and> fst (hookPrepare y a (queryOf sessionEntry) arr) = Inl e)"

text \<open>The call of the collaborator raises \<open>null\<close> or \<open>undefined\<close>.\<close>

definition raisesNullish :: "api \<Rightarrow> string \<Rightarrow> string list \<Rightarrow> bool" where
  "raisesNullish a query nonExempt =
     (case generateText a of
        None \<Rightarrow> False
      | Some g \<Rightarrow>
          g \<lparr>req_model = routerModel a, req_query = query, req_candidates = nonExempt\<rparr>
            = Raises Nullish)"



text \<open>The candidate name inferred from a record, and the records that are well formed
  for lines 191 and 199: a bare path, or an object whose path is not empty.\<close>

definition inferredName :: "bfile \<Rightarrow> string option" where
  "inferredName file = skillsMatch (pathOrEmpty file)"

definition hasPath :: "bfile \<Rightarrow> bool" where
  "hasPath file = (case file of FileObj p c \<Rightarrow> p \<noteq> [] | BarePath s \<Rightarrow> True)"

text \<open>
  The rebuilt list as the specification words it: the records without a candidate name
  in their order, then the records of selected candidates in their order, then the
  diagnostic record when something is selected.
\<close>

definition keptSkillFile :: "string list \<Rightarrow> bfile \<Rightarrow> bool" where
  "keptSkillFile sel file = (case inferredName file of None \<Rightarrow> False | Some n \<Rightarrow> n \<in> set sel)"

definition expectedManifest :: "string list \<Rightarrow> bfile list \<Rightarrow> bfile list" where
  "expectedManifest sel files =
     filter (\<lambda>f. inferredName f = None) files
     @ filter (keptSkillFile sel) files
     @ (if sel \<noteq> [] then [reportFile sel] else [])"

definition history :: "turn list option \<Rightarrow> turn list" where
  "history sessionEntry = (case sessionEntry of None \<Rightarrow> [] | Some h \<Rightarrow> h)"

section \<open>Sample hosts and inputs\<close>

text \<open>
  A parser for the samples: it accepts the two arrays the sample collaborators send and
  rejects what is not JSON.
\<close>

definition ghostArray :: string where
  "ghostArray = ''['' @ [doubleQuote] @ ''ghost'' @ [doubleQuote] @ '']''"

definition sampleParse :: "string \<Rightarrow> json list option" where
  "sampleParse t =
     (if t = ghostArray then Some [JString ''ghost'']
      else if t = ''[]'' then Some []
      else None)"

text \<open>A host without readable files, and one with a descriptor for the skill \<open>pdf\<close>.\<close>

definition plainSys :: sys where
  "plainSys =
     \<lparr>readFile = (\<lambda>p. None), bufferToString = (\<lambda>b. b), JSON_parse = sampleParse,
      maxArguments = 65535\<rparr>"

definition pdfDescriptor :: string where
  "pdfDescriptor =
     ''---'' @ [CHR 0x0A] @ ''name: pdf'' @ [CHR 0x0A]
     @ ''description: '' @ [doubleQuote] @ ''Parses PDF files'' @ [doubleQuote] @ [CHR 0x0A]
     @ ''---'' @ [CHR 0x0A] @ ''Reads the pages of a document.''"

definition pdfSys :: sys where
  "pdfSys =
     \<lparr>readFile = (\<lambda>p. if p = ''/skills/pdf/SKILL.md'' then Some pdfDescriptor else None),
      bufferToString = (\<lambda>b. b), JSON_parse = sampleParse, maxArguments = 65535\<rparr>"

text \<open>A host without configuration or collaborator.\<close>

definition plainApi :: api where
  "plainApi = \<lparr>cfg_exemptions = None, cfg_routerModel = None, generateText = None\<rparr>"

text \<open>A collaborator that recommends a name nobody asked about.\<close>

definition ghostApi :: api where
  "ghostApi =
     \<lparr>cfg_exemptions = None, cfg_routerModel = None,
      generateText = Some (\<lambda>r. Reply (Some (''Sure: '' @ ghostArray)) None)\<rparr>"

text \<open>Collaborators whose call raises: an error object, and \<open>undefined\<close>.\<close>

definition failingApi :: api where
  "failingApi =
     \<lparr>cfg_exemptions = None, cfg_routerModel = None,
      generateText = Some (\<lambda>r. Raises ErrorValue)\<rparr>"

definition rejectingApi :: api where
  "rejectingApi =
     \<lparr>cfg_exemptions = None, cfg_routerModel = None,
      generateText = Some (\<lambda>r. Raises Nullish)\<rparr>"

text \<open>A configuration that exempts every skill.\<close>

definition keepAllApi :: api where
  "keepAllApi = \<lparr>cfg_exemptions = Some [''*''], cfg_routerModel = None, generateText = None\<rparr>"

definition userSays :: "string \<Rightarrow> turn list option" where
  "userSays q =
     Some [\<lparr>turn_role = ''user'', turn_content = q\<rparr>,
           \<lparr>turn_role = ''assistant'', turn_content = ''ok''\<rparr>]"

definition extensibleArray :: "bfile list \<Rightarrow> js_array" where
  "extensibleArray files = \<lparr>elems = files, extensible = True\<rparr>"

section \<open>Case folding\<close>











section \<open>The whole-word test is what the specification says\<close>











section \<open>What the loops of the Selector compute\<close>

lemma exemptionPass_selected: "selected (exemptionPass es r) = selected r @ es"
  by (induction es arbitrary: r) auto

lemma exemptionPass_scores:
  "scores (exemptionPass es r) k =
     (if k \<in> set es \<and> k \<noteq> ''__proto__'' then Some 999 else scores r k)"
  by (induction es arbitrary: r) (auto simp: setNumber_def)

lemma exemptionPass_breakdown:
  "breakdown (exemptionPass es r) k = (if k \<in> set es then Some [''Exemption''] else breakdown r k)"
  by (induction es arbitrary: r) (auto simp: setArray_def)

lemma scoringLoop_selected:
  "selected (scoringLoop y q l sf ns r) =
     selected r @ filter (\<lambda>n. 60 \<le> fst (scoreSkill y q l sf n)) ns"
  by (induction ns arbitrary: r) (auto simp: Let_def)

lemma scoringLoop_scores:
  "scores (scoringLoop y q l sf ns r) k =
     (if k \<in> set ns \<and> k \<noteq> ''__proto__'' then Some (fst (scoreSkill y q l sf k))
      else scores r k)"
  by (induction ns arbitrary: r) (auto simp: Let_def setNumber_def)

lemma scoringLoop_breakdown:
  "breakdown (scoringLoop y q l sf ns r) k =
     (if k \<in> set ns then Some (snd (scoreSkill y q l sf k)) else breakdown r k)"
  by (induction ns arbitrary: r) (auto simp: Let_def setArray_def)

lemma in_exemptNames:
  "c \<in> set (exemptNames a sf) \<longleftrightarrow> c \<in> set (candidateNames sf) \<and> isExempt c (configExemptions a)"
  by (auto simp: exemptNames_def)

lemma in_nonExemptNames:
  "c \<in> set (nonExemptNames a sf) \<longleftrightarrow>
     c \<in> set (candidateNames sf) \<and> \<not> isExempt c (configExemptions a)"
  by (auto simp: nonExemptNames_def in_exemptNames)

text \<open>
  The Selector is left by a raise exactly when a candidate is not exempt and the call
  of the collaborator raises \<open>null\<close> or \<open>undefined\<close>; the error is a \<open>TypeError\<close>.
\<close>

lemma semanticRecommend_raises_iff:
  "semanticRecommend y a q ns = Inl e \<longleftrightarrow> ns \<noteq> [] \<and> raisesNullish a q ns \<and> e = TypeError"
  by (auto simp: semanticRecommend_def raisesNullish_def
      split: option.splits llm_reply.splits thrown.splits)

lemma select_raises_iff:
  "selectRelevantSkills y a q sf = Inl e \<longleftrightarrow>
     nonExemptNames a sf \<noteq> [] \<and> raisesNullish a q (nonExemptNames a sf) \<and> e = TypeError"
  using semanticRecommend_raises_iff[of y a q "nonExemptNames a sf" e]
  by (auto simp: selectRelevantSkills_def Let_def split: sum.splits)

lemma select_returns:
  assumes "selectRelevantSkills y a q sf = Inr r"
  shows "r = scoringLoop y (toLowerCase q) (recommended y a q sf) sf (nonExemptNames a sf)
               (exemptionPass (exemptNames a sf)
                  \<lparr>selected = [], scores = Map.empty, breakdown = Map.empty\<rparr>)"
  using assms
  by (auto simp: selectRelevantSkills_def recommended_def Let_def split: sum.splits)

lemma select_selected:
  assumes "selectRelevantSkills y a q sf = Inr r"
  shows "selected r =
     exemptNames a sf @ filter (\<lambda>n. 60 \<le> totalScore y a q sf n) (nonExemptNames a sf)"
  by (simp add: select_returns[OF assms] scoringLoop_selected exemptionPass_selected
      totalScore_def)

lemma select_scores:
  assumes "selectRelevantSkills y a q sf = Inr r"
  shows "scores r k =
     (if k = ''__proto__'' then None
      else if k \<in> set (nonExemptNames a sf) then Some (totalScore y a q sf k)
      else if k \<in> set (exemptNames a sf) then Some 999 else None)"
  by (simp add: select_returns[OF assms] scoringLoop_scores exemptionPass_scores totalScore_def)

lemma select_breakdown:
  assumes "selectRelevantSkills y a q sf = Inr r"
  shows "breakdown r k =
     (if k \<in> set (nonExemptNames a sf)
      then Some (snd (scoreSkill y (toLowerCase q) (recommended y a q sf) sf k))
      else if k \<in> set (exemptNames a sf) then Some [''Exemption''] else None)"
  by (simp add: select_returns[OF assms] scoringLoop_breakdown exemptionPass_breakdown)

text \<open>
  What the exemption pass gives a candidate that is exempt, whenever the Selector
  returns: it is selected, with the one reason \<open>Exemption\<close>, and with the score 999 unless
  its name is \<open>__proto__\<close>.
\<close>

lemma exempt_candidate_selected:
  assumes "selectRelevantSkills y a q sf = Inr r"
    and "c \<in> set (candidateNames sf)" and "isExempt c (configExemptions a)"
  shows "c \<in> set (selected r)" and "breakdown r c = Some [''Exemption'']"
    and "c \<noteq> ''__proto__'' \<Longrightarrow> scores r c = Some 999"
  using assms(2,3)
  by (simp_all add: select_selected[OF assms(1)] select_scores[OF assms(1)]
      select_breakdown[OF assms(1)] in_exemptNames in_nonExemptNames)

text \<open>The score stored for a candidate that is not exempt, under any name but \<open>__proto__\<close>.\<close>

lemma stored_score_is_total:
  assumes "selectRelevantSkills y a q sf = Inr r"
    and "c \<in> set (candidateNames sf)" and "\<not> isExempt c (configExemptions a)"
    and "c \<noteq> ''__proto__''"
  shows "scores r c = Some (totalScore y a q sf c)"
  using assms(2,3,4) by (simp add: select_scores[OF assms(1)] in_nonExemptNames)

text \<open>
  When the collaborator is missing, raises a value with a message, or sends no array
  that parses, the recommendation set is empty and the Selector returns.
\<close>

lemma unavailable_gives_empty:
  assumes "llmUnavailable y a q ns" and "\<not> raisesNullish a q ns"
  shows "semanticRecommend y a q ns = Inr []"
  using assms
  by (auto simp: llmUnavailable_def raisesNullish_def semanticRecommend_def
      split: option.splits llm_reply.splits thrown.splits)

text \<open>Every signal adds a multiple of 10.\<close>

lemma descSignal_multiple: "10 dvd fst (descSignal q d)"
proof -
  have "10 dvd min 30 (n * 10)" for n :: nat
  proof (cases "n \<le> 3")
    case True
    then show ?thesis by (simp add: min_def)
  next
    case False
    then show ?thesis by (simp add: min_def)
  qed
  then show ?thesis by (simp add: descSignal_def Let_def)
qed

lemma scoreSkill_multiple: "10 dvd fst (scoreSkill y q l sf c)"
proof -
  have "10 dvd fst (descriptorSignal y q sf c)"
    by (auto simp: descriptorSignal_def descSignal_multiple split: option.splits)
  then show ?thesis
    by (simp add: scoreSkill_def Let_def nameSignal_def llmSignal_def)
qed

text \<open>No total score is 59.\<close>

lemma totalScore_not_59: "totalScore y a q sf c \<noteq> 59"
proof
  assume "totalScore y a q sf c = 59"
  moreover have "10 dvd totalScore y a q sf c"
    by (simp add: totalScore_def scoreSkill_multiple)
  ultimately show False by presburger
qed

section \<open>What the loops of the hook compute\<close>

lemma pathOrSelf_hasPath: "hasPath f \<Longrightarrow> pathOrSelf f = Inr (pathOrEmpty f)"
  by (cases f) (auto simp: hasPath_def pathOrSelf_def pathOrEmpty_def)

lemma pathOrSelf_no_path: "\<not> hasPath f \<Longrightarrow> pathOrSelf f = Inl TypeError"
  by (cases f) (auto simp: hasPath_def pathOrSelf_def)

lemma groupFiles_nonSkill:
  "snd (groupFiles files (sp, ns)) = ns @ filter (\<lambda>f. inferredName f = None) files"
  by (induction files arbitrary: sp ns) (auto simp: Let_def inferredName_def split: option.splits)

lemma keepSelected_filter:
  "list_all hasPath files \<Longrightarrow>
     keepSelected sel files kept = Inr (kept @ filter (keptSkillFile sel) files)"
  by (induction files arbitrary: kept)
     (auto simp: pathOrSelf_hasPath keptSkillFile_def inferredName_def split: option.splits)

lemma matchAll_hasPath:
  "list_all hasPath files \<Longrightarrow> matchAll files = Inr (map inferredName files)"
  by (induction files) (auto simp: pathOrSelf_hasPath inferredName_def)

lemma matchAll_no_path: "\<not> list_all hasPath files \<Longrightarrow> matchAll files = Inl TypeError"
proof (induction files)
  case Nil
  then show ?case by simp
next
  case (Cons f fs)
  then show ?case
    by (cases "hasPath f") (auto simp: pathOrSelf_hasPath pathOrSelf_no_path)
qed

lemma allSkillNames_raises_iff:
  "allSkillNames files = Inl e \<longleftrightarrow> \<not> list_all hasPath files \<and> e = TypeError"
proof (cases "list_all hasPath files")
  case True
  then show ?thesis by (simp add: allSkillNames_def matchAll_hasPath)
next
  case False
  then show ?thesis by (auto simp: allSkillNames_def matchAll_no_path)
qed

text \<open>The part of the body before the writes leaves the array as it is.\<close>

lemma hookPrepare_keeps_array: "snd (hookPrepare y a q arr) = arr"
  by (auto simp: hookPrepare_def Let_def bind_def readArray_def orRaise_def ret_def raise_def
      split: sum.splits)

lemma hookPrepare_returns:
  assumes "list_all hasPath (elems arr)"
    and "selectRelevantSkills y a q (fst (groupFiles (elems arr) ([], []))) = Inr r"
  shows "hookPrepare y a q arr
         = (Inr (filter (\<lambda>f. inferredName f = None) (elems arr)
                   @ filter (keptSkillFile (selected r)) (elems arr), selected r), arr)"
proof -
  obtain ns where ns: "allSkillNames (elems arr) = Inr ns"
    using assms(1) by (cases "allSkillNames (elems arr)") (auto simp: allSkillNames_raises_iff)
  show ?thesis
    by (simp add: hookPrepare_def Let_def bind_def readArray_def orRaise_def
        ret_def ns assms(2) keepSelected_filter[OF assms(1)]
        groupFiles_nonSkill[of "elems arr" "[]" "[]", simplified])
qed

text \<open>
  That part raises exactly when an object record has an empty path or the Selector is
  left by a raise.
\<close>

lemma hookPrepare_raises_iff:
  "fst (hookPrepare y a q arr) = Inl e \<longleftrightarrow>
     e = TypeError \<and>
     (\<not> list_all hasPath (elems arr)
      \<or> selectRelevantSkills y a q (fst (groupFiles (elems arr) ([], []))) = Inl TypeError)"
proof (cases "list_all hasPath (elems arr)")
  case False
  then have "allSkillNames (elems arr) = Inl TypeError"
    by (simp add: allSkillNames_raises_iff)
  then have "fst (hookPrepare y a q arr) = Inl TypeError"
    by (simp add: hookPrepare_def Let_def bind_def readArray_def orRaise_def raise_def)
  then show ?thesis using False by auto
next
  case True
  show ?thesis
  proof (cases "selectRelevantSkills y a q (fst (groupFiles (elems arr) ([], [])))")
    case (Inl e')
    then have e': "e' = TypeError" by (simp add: select_raises_iff)
    obtain ns where ns: "allSkillNames (elems arr) = Inr ns"
      using True by (cases "allSkillNames (elems arr)") (auto simp: allSkillNames_raises_iff)
    have "fst (hookPrepare y a q arr) = Inl TypeError"
      using Inl e'
      by (simp add: hookPrepare_def Let_def bind_def readArray_def orRaise_def raise_def
          ret_def ns)
    then show ?thesis using True Inl e' by auto
  next
    case (Inr r)
    then show ?thesis using True hookPrepare_returns[OF True Inr] by simp
  qed
qed

lemma hookBody_no_query: "queryOf se = [] \<Longrightarrow> hookBody y a se arr = (Inr (), arr)"
  by (simp add: hookBody_def ret_def)

lemma catchAll_returns: "fst (catchAll m s) = Inr ()"
  by (cases "m s") (auto simp: catchAll_def split: sum.splits)

lemma catchAll_state: "snd (catchAll m s) = snd (m s)"
  by (cases "m s") (auto simp: catchAll_def split: sum.splits)

text \<open>
  The rebuilt list, when nothing raises: every object record has a path, the Selector
  returns, the array is extensible and its records fit in one call.
\<close>

lemma kept_length:
  "length (filter (\<lambda>f. inferredName f = None) files @ filter (keptSkillFile sel) files)
     \<le> length files"
proof -
  have "filter (keptSkillFile sel) files
          = filter (keptSkillFile sel) (filter (\<lambda>f. inferredName f \<noteq> None) files)"
    by (induction files) (auto simp: keptSkillFile_def)
  then have "length (filter (keptSkillFile sel) files)
          \<le> length (filter (\<lambda>f. inferredName f \<noteq> None) files)"
    by (metis length_filter_le)
  moreover have "length (filter (\<lambda>f. inferredName f = None) files)
          + length (filter (\<lambda>f. inferredName f \<noteq> None) files) = length files"
    by (rule sum_length_filter_compl)
  ultimately show ?thesis by simp
qed

lemma hookBody_rebuild:
  assumes "queryOf se \<noteq> []" and "list_all hasPath (elems arr)"
    and "selectRelevantSkills y a (queryOf se) (fst (groupFiles (elems arr) ([], []))) = Inr r"
    and "extensible arr" and "int (length (elems arr)) \<le> maxArguments y"
    and "0 < maxArguments y"
  shows "hookBody y a se arr
         = (Inr (), arr\<lparr>elems := expectedManifest (selected r) (elems arr)\<rparr>)"
proof -
  have m1: "\<not> maxArguments y
              < int (length (filter (\<lambda>f. inferredName f = None) (elems arr)))
                + int (length (filter (keptSkillFile (selected r)) (elems arr)))"
    using kept_length[of "elems arr" "selected r"] assms(5) by simp
  have m2: "\<not> maxArguments y < 1"
    using assms(6) by simp
  show ?thesis
    using assms(1,4) m1 m2
    by (simp add: hookBody_def Let_def bind_def hookPrepare_returns[OF assms(2,3)]
        hookRewrite_def clearArray_def pushAll_def ret_def expectedManifest_def)
qed

lemma lastUserMsg_None:
  "lastUserMsg se = None \<longleftrightarrow> \<not> list_ex (\<lambda>m. turn_role m = ''user'') (history se)"
  by (auto simp: lastUserMsg_def history_def find_None_iff list_ex_iff split: option.splits)

lemma mapSet_keys: "fst ` set (mapSet k v m) = insert k (fst ` set m)"
proof (induction m)
  case Nil
  show ?case by simp
next
  case (Cons p m)
  obtain k' v' where p: "p = (k', v')" by (cases p)
  show ?case using Cons.IH by (cases "k' = k") (auto simp: p)
qed

text \<open>
  The keys of \<open>skillPaths\<close> after the first loop, and so the candidates of the Selector:
  the names inferred from the records whose path ends in \<open>SKILL.md\<close>.
\<close>

lemma groupFiles_keys:
  "fst ` set (fst (groupFiles files (sp, ns))) =
     fst ` set sp \<union>
     {n. \<exists>f \<in> set files. inferredName f = Some n \<and> endsWith (pathOrEmpty f) ''SKILL.md''}"
proof (induction files arbitrary: sp ns)
  case Nil
  show ?case by simp
next
  case (Cons f files)
  show ?case
  proof (cases "inferredName f")
    case None
    then show ?thesis using Cons.IH[of sp "ns @ [f]"]
      by (simp add: inferredName_def)
  next
    case (Some n)
    show ?thesis
    proof (cases "endsWith (pathOrEmpty f) ''SKILL.md''")
      case True
      have "fst ` set (fst (groupFiles (f # files) (sp, ns)))
            = fst ` set (fst (groupFiles files (mapSet n (pathOrEmpty f) sp, ns)))"
        using Some True by (simp add: inferredName_def)
      also have "\<dots> = insert n (fst ` set sp) \<union>
         {n. \<exists>f \<in> set files. inferredName f = Some n \<and> endsWith (pathOrEmpty f) ''SKILL.md''}"
        by (simp only: Cons.IH mapSet_keys)
      finally show ?thesis using Some True by auto
    next
      case False
      have "fst ` set (fst (groupFiles (f # files) (sp, ns)))
            = fst ` set (fst (groupFiles files (sp, ns)))"
        using Some False by (simp add: inferredName_def)
      then show ?thesis using Some False Cons.IH[of sp ns] by auto
    qed
  qed
qed

lemma selectorCandidates_descriptors:
  "set (selectorCandidates files) =
     {n. \<exists>f \<in> set files. inferredName f = Some n \<and> endsWith (pathOrEmpty f) ''SKILL.md''}"
  using groupFiles_keys[of files "[]" "[]"]
  by (simp add: selectorCandidates_def candidateNames_def)

lemma skillsMatch_nonempty: "skillsMatch s = Some n \<Longrightarrow> n \<noteq> []"
proof (induction s)
  case Nil
  then show ?case by simp
next
  case (Cons c cs)
  show ?case
  proof (cases "isSep c \<and> startsWith cs ''skills'' \<and> sepThenName (drop 6 cs)")
    case True
    then obtain d e r where r: "drop 6 cs = d # e # r" "\<not> isSep e"
      by (auto simp: sepThenName_def split: list.splits)
    have "drop 7 cs = drop 1 (drop 6 cs)" by simp
    then have "drop 7 cs = e # r" by (simp only: r drop_Suc_Cons One_nat_def drop0)
    with True r Cons.prems show ?thesis by auto
  next
    case False
    with Cons show ?thesis by auto
  qed
qed

lemma uniqFrom_set: "set (uniqFrom seen xs) = set seen \<union> set xs"
  by (induction xs arbitrary: seen) auto

lemma uniqFrom_distinct: "distinct seen \<Longrightarrow> distinct (uniqFrom seen xs)"
  by (induction xs arbitrary: seen) auto

lemma truthyNames_set: "set (truthyNames ms) = {n. Some n \<in> set ms \<and> n \<noteq> []}"
  by (induction ms) (auto simp: truthyNames_def split: option.splits)

text \<open>
  \<open>allSkillNames\<close> (lines 189 to 193) holds each name inferred from a record once.
\<close>

lemma allSkillNames_inferred:
  assumes "list_all hasPath files"
  shows "\<exists>ns. allSkillNames files = Inr ns \<and> distinct ns
           \<and> set ns = {n. \<exists>f \<in> set files. inferredName f = Some n}"
proof -
  have "set (truthyNames (map inferredName files))
          = {n. \<exists>f \<in> set files. inferredName f = Some n}"
  proof (intro set_eqI iffI)
    fix n
    assume "n \<in> set (truthyNames (map inferredName files))"
    then show "n \<in> {n. \<exists>f \<in> set files. inferredName f = Some n}"
      by (auto simp: truthyNames_set)
  next
    fix n
    assume "n \<in> {n. \<exists>f \<in> set files. inferredName f = Some n}"
    then obtain f where f: "f \<in> set files" "inferredName f = Some n" by blast
    then have "n \<noteq> []" using skillsMatch_nonempty by (simp add: inferredName_def)
    moreover have "Some n \<in> set (map inferredName files)" using f by force
    ultimately show "n \<in> set (truthyNames (map inferredName files))"
      by (simp add: truthyNames_set)
  qed
  then show ?thesis
    by (simp add: allSkillNames_def matchAll_hasPath[OF assms] uniqFrom_set uniqFrom_distinct)
qed

section \<open>The claims\<close>

subsection \<open>C1: the candidates handed to the Selector\<close>

text \<open>
  C1 says that the candidate set the hook passes to the Selector is the set of distinct
  names inferred from the paths of all records, with or without a descriptor record.
  The hook computes that set (\<open>allSkillNames\<close>, lines 189 to 193) and does not use it:
  the Selector receives the keys of \<open>skillPaths\<close>, which holds a name only when a
  record of that skill ends in \<open>SKILL.md\<close> (\<open>selectorCandidates_descriptors\<close>). On the
  list with the single record \<open>/skills/foo/helper.py\<close> the inferred names are \<open>[foo]\<close>,
  the candidates are none, and with the query \<open>use foo\<close> the record is removed although
  the query names the skill.
\<close>

theorem descriptorless_skill_is_no_candidate:
  "allSkillNames [BarePath ''/skills/foo/helper.py''] = Inr [''foo'']
   \<and> selectorCandidates [BarePath ''/skills/foo/helper.py''] = []
   \<and> bootstrapHook plainSys plainApi (userSays ''use foo'')
         (extensibleArray [BarePath ''/skills/foo/helper.py''])
       = (Inr (), extensibleArray [])"
proof -
  have a: "allSkillNames [BarePath ''/skills/foo/helper.py''] = Inr [''foo'']"
    by code_simp
  have b: "selectorCandidates [BarePath ''/skills/foo/helper.py''] = []"
    by code_simp
  have c: "bootstrapHook plainSys plainApi (userSays ''use foo'')
             (extensibleArray [BarePath ''/skills/foo/helper.py''])
           = (Inr (), extensibleArray [])"
    by code_simp
  show ?thesis by (rule conjI[OF a conjI[OF b c]])
qed

subsection \<open>C2: the rebuilt list\<close>

text \<open>
  C2 says that for every record list and non-empty query the hook leaves the records
  without a candidate name, then the records of selected candidates, then the
  diagnostic record when the selection is not empty. On the list of an object with an
  empty path and the descriptor of the skill \<open>zz\<close>, with the query \<open>hello\<close>, nothing is
  selected and the list should become the first record alone. Line 176 takes the
  empty path for a path without a candidate name; lines 191 and 199 call \<open>.match\<close> on
  the object itself, which raises, and the list stays as it was, the record of \<open>zz\<close>
  included.
\<close>

theorem empty_path_object_blocks_rebuild:
  "(case selectRelevantSkills plainSys plainApi ''hello''
           (fst (groupFiles [FileObj '''' None, BarePath ''/skills/zz/SKILL.md''] ([], []))) of
      Inl e \<Rightarrow> False
    | Inr r \<Rightarrow> selected r = [])
   \<and> expectedManifest [] [FileObj '''' None, BarePath ''/skills/zz/SKILL.md'']
       = [FileObj '''' None]
   \<and> bootstrapHook plainSys plainApi (userSays ''hello'')
         (extensibleArray [FileObj '''' None, BarePath ''/skills/zz/SKILL.md''])
       = (Inr (), extensibleArray [FileObj '''' None, BarePath ''/skills/zz/SKILL.md''])"
proof -
  have a: "(case selectRelevantSkills plainSys plainApi ''hello''
           (fst (groupFiles [FileObj '''' None, BarePath ''/skills/zz/SKILL.md''] ([], []))) of
      Inl e \<Rightarrow> False
    | Inr r \<Rightarrow> selected r = [])"
    by code_simp
  have b: "expectedManifest [] [FileObj '''' None, BarePath ''/skills/zz/SKILL.md'']
       = [FileObj '''' None]"
    by code_simp
  have c: "bootstrapHook plainSys plainApi (userSays ''hello'')
         (extensibleArray [FileObj '''' None, BarePath ''/skills/zz/SKILL.md''])
       = (Inr (), extensibleArray [FileObj '''' None, BarePath ''/skills/zz/SKILL.md''])"
    by code_simp
  show ?thesis by (rule conjI[OF a conjI[OF b c]])
qed

subsection \<open>C3: the threshold\<close>

text \<open>
  C3: in every run of the Selector that returns, a candidate that is not exempt is
  selected if and only if its total score is at least 60. A score below 60 excludes it;
  a score of exactly 60, such as a name match alone, includes it. (The signals add
  multiples of 10, so that no candidate scores 59: \<open>totalScore_not_59\<close>.)
\<close>

theorem selected_iff_score_reaches_60:
  assumes "selectRelevantSkills y a q sf = Inr r"
    and "c \<in> set (candidateNames sf)" and "\<not> isExempt c (configExemptions a)"
  shows "c \<in> set (selected r) \<longleftrightarrow> 60 \<le> totalScore y a q sf c"
  using assms(2,3)
  by (auto simp add: select_selected[OF assms(1)] in_exemptNames in_nonExemptNames)

text \<open>
  A name match alone scores 60 and is selected; one keyword of the description scores
  10 and is not.
\<close>

theorem selected_iff_score_reaches_60_witness:
  "(\<exists>r. selectRelevantSkills plainSys plainApi ''use the pdf tool''
           [(''pdf'', ''/skills/pdf/SKILL.md'')] = Inr r
        \<and> ''pdf'' \<in> set (candidateNames [(''pdf'', ''/skills/pdf/SKILL.md'')])
        \<and> \<not> isExempt ''pdf'' (configExemptions plainApi)
        \<and> totalScore plainSys plainApi ''use the pdf tool''
              [(''pdf'', ''/skills/pdf/SKILL.md'')] ''pdf'' = 60
        \<and> ''pdf'' \<in> set (selected r))
   \<and> (\<exists>r. selectRelevantSkills pdfSys plainApi ''which files are here''
           [(''pdf'', ''/skills/pdf/SKILL.md'')] = Inr r
        \<and> totalScore pdfSys plainApi ''which files are here''
              [(''pdf'', ''/skills/pdf/SKILL.md'')] ''pdf'' = 10
        \<and> ''pdf'' \<notin> set (selected r))"
proof -
  let ?sf = "[(''pdf'', ''/skills/pdf/SKILL.md'')]"
  have h1: "''pdf'' \<in> set (candidateNames ?sf)"
    by code_simp
  have h2: "\<not> isExempt ''pdf'' (configExemptions plainApi)"
    by code_simp
  have n1: "\<not> raisesNullish plainApi ''use the pdf tool'' (nonExemptNames plainApi ?sf)"
    by code_simp
  obtain r1 where r1: "selectRelevantSkills plainSys plainApi ''use the pdf tool'' ?sf = Inr r1"
    using n1 select_raises_iff[of plainSys plainApi "''use the pdf tool''" ?sf]
    by (cases "selectRelevantSkills plainSys plainApi ''use the pdf tool'' ?sf") auto
  have t1: "totalScore plainSys plainApi ''use the pdf tool'' ?sf ''pdf'' = 60"
    by code_simp
  have s1: "''pdf'' \<in> set (selected r1)"
    using selected_iff_score_reaches_60[OF r1 h1 h2] by (simp add: t1)
  have n2: "\<not> raisesNullish plainApi ''which files are here'' (nonExemptNames plainApi ?sf)"
    by code_simp
  obtain r2 where r2: "selectRelevantSkills pdfSys plainApi ''which files are here'' ?sf = Inr r2"
    using n2 select_raises_iff[of pdfSys plainApi "''which files are here''" ?sf]
    by (cases "selectRelevantSkills pdfSys plainApi ''which files are here'' ?sf") auto
  have t2: "totalScore pdfSys plainApi ''which files are here'' ?sf ''pdf'' = 10"
    by code_simp
  have s2: "''pdf'' \<notin> set (selected r2)"
    using selected_iff_score_reaches_60[OF r2 h1 h2] by (simp add: t2)
  show ?thesis using r1 h1 h2 t1 s1 r2 t2 s2 by blast
qed

subsection \<open>C4: the name match\<close>




subsection \<open>C5: the description keyword density\<close>


subsection \<open>C6: exemption\<close>

text \<open>
  C6 says that every candidate that matches an exemption pattern is selected whatever
  its signals are, with the score 999 and the single reason \<open>Exemption\<close>. The Selector
  keeps its scores in a plain object (the paths are kept in a \<open>Map\<close>): for the candidate
  named \<open>__proto__\<close>, which the pattern \<open>*\<close> exempts, \<open>scores[s] = 999\<close> stores nothing.
  The candidate is selected and has no score. For every other name the claim holds
  whenever the Selector returns (\<open>exempt_candidate_selected\<close>).
\<close>

theorem proto_candidate_has_no_sentinel_score:
  "''__proto__'' \<in> set (candidateNames [(''__proto__'', ''/skills/__proto__/SKILL.md'')])
   \<and> isExempt ''__proto__'' (configExemptions keepAllApi)
   \<and> (case selectRelevantSkills plainSys keepAllApi ''hello''
              [(''__proto__'', ''/skills/__proto__/SKILL.md'')] of
         Inl e \<Rightarrow> False
       | Inr r \<Rightarrow> ''__proto__'' \<in> set (selected r) \<and> scores r ''__proto__'' = None)"
  by code_simp

subsection \<open>C7: nothing outside the candidate set is selected\<close>

text \<open>
  C7: for every candidate set and every reply of the collaborator, each selected name
  is one of the candidates; a name the collaborator made up is never selected.
\<close>

theorem selected_names_are_candidates:
  assumes "selectRelevantSkills y a q sf = Inr r"
  shows "set (selected r) \<subseteq> set (candidateNames sf)"
  by (auto simp: select_selected[OF assms] in_exemptNames in_nonExemptNames)

theorem selected_names_are_candidates_witness:
  "semanticRecommend plainSys ghostApi ''hello''
       (nonExemptNames ghostApi [(''pdf'', ''/skills/pdf/SKILL.md'')]) = Inr [JString ''ghost'']
   \<and> (\<exists>r. selectRelevantSkills plainSys ghostApi ''hello''
             [(''pdf'', ''/skills/pdf/SKILL.md'')] = Inr r
          \<and> ''ghost'' \<notin> set (selected r))"
proof -
  let ?sf = "[(''pdf'', ''/skills/pdf/SKILL.md'')]"
  have g: "semanticRecommend plainSys ghostApi ''hello'' (nonExemptNames ghostApi ?sf)
             = Inr [JString ''ghost'']"
    by code_simp
  have n: "''ghost'' \<notin> set (candidateNames ?sf)"
    by code_simp
  obtain r where r: "selectRelevantSkills plainSys ghostApi ''hello'' ?sf = Inr r"
    using g by (simp add: selectRelevantSkills_def Let_def)
  have s: "''ghost'' \<notin> set (selected r)"
    using selected_names_are_candidates[OF r] n by blast
  show ?thesis using g r s by blast
qed

subsection \<open>C8: no query, no change\<close>

text \<open>
  C8: when the session has no turn whose role is \<open>user\<close>, or the content of its most
  recent user turn is empty, the hook returns normally and the record list is exactly
  what it was.
\<close>

theorem no_query_leaves_list_unchanged:
  assumes "\<not> list_ex (\<lambda>m. turn_role m = ''user'') (history se)
           \<or> (\<exists>m. lastUserMsg se = Some m \<and> turn_content m = [])"
  shows "bootstrapHook y a se arr = (Inr (), arr)"
proof -
  have "queryOf se = []"
    using assms lastUserMsg_None[of se] by (auto simp: queryOf_def)
  then show ?thesis
    by (simp add: bootstrapHook_def catchAll_def hookBody_no_query)
qed

theorem no_query_leaves_list_unchanged_witness:
  "\<not> list_ex (\<lambda>m. turn_role m = ''user'')
        (history (Some [\<lparr>turn_role = ''system'', turn_content = ''init''\<rparr>]))
   \<and> bootstrapHook plainSys plainApi (Some [\<lparr>turn_role = ''system'', turn_content = ''init''\<rparr>])
       (extensibleArray [BarePath ''AGENTS.md'', BarePath ''/skills/zz/SKILL.md''])
     = (Inr (), extensibleArray [BarePath ''AGENTS.md'', BarePath ''/skills/zz/SKILL.md''])
   \<and> lastUserMsg (userSays '''') = Some \<lparr>turn_role = ''user'', turn_content = ''''\<rparr>
   \<and> bootstrapHook plainSys plainApi (userSays '''')
       (extensibleArray [BarePath ''AGENTS.md'', BarePath ''/skills/zz/SKILL.md''])
     = (Inr (), extensibleArray [BarePath ''AGENTS.md'', BarePath ''/skills/zz/SKILL.md''])"
proof -
  let ?arr = "extensibleArray [BarePath ''AGENTS.md'', BarePath ''/skills/zz/SKILL.md'']"
  let ?init = "Some [\<lparr>turn_role = ''system'', turn_content = ''init''\<rparr>]"
  have h1: "\<not> list_ex (\<lambda>m. turn_role m = ''user'') (history ?init)"
    by code_simp
  have l: "lastUserMsg (userSays '''') = Some \<lparr>turn_role = ''user'', turn_content = ''''\<rparr>"
    by code_simp
  have h2: "\<exists>m. lastUserMsg (userSays '''') = Some m \<and> turn_content m = []"
    using l by simp
  have r1: "bootstrapHook plainSys plainApi ?init ?arr = (Inr (), ?arr)"
    by (rule no_query_leaves_list_unchanged[OF disjI1[OF h1]])
  have r2: "bootstrapHook plainSys plainApi (userSays '''') ?arr = (Inr (), ?arr)"
    by (rule no_query_leaves_list_unchanged[OF disjI2[OF h2]])
  show ?thesis by (rule conjI[OF h1 conjI[OF r1 conjI[OF l r2]]])
qed

subsection \<open>C9: the semantic signal degrades to empty\<close>

text \<open>
  C9 says that when no collaborator is configured, or its call raises, or its reply
  holds no array that parses, the recommendation set is empty and the selection still
  completes. That is so when the collaborator is missing, when it raises a value with
  a message and when no array parses (\<open>unavailable_gives_empty\<close>). When the call raises
  \<open>undefined\<close> or \<open>null\<close> (a promise rejected without a reason), the handler of line 101
  raises on \<open>e.message\<close>: the Selector is left without a result, the hook catches, and
  the list stays as it was. With the query \<open>use the pdf\<close> and the descriptors of \<open>pdf\<close>
  and \<open>img\<close>, a collaborator that raises an error object leaves \<open>pdf\<close> and the report;
  one that raises \<open>undefined\<close> leaves both records.
\<close>

theorem nullish_raise_aborts_selection:
  "llmUnavailable plainSys rejectingApi ''use the pdf''
     (nonExemptNames rejectingApi
        [(''pdf'', ''/skills/pdf/SKILL.md''), (''img'', ''/skills/img/SKILL.md'')])
   \<and> (case selectRelevantSkills plainSys rejectingApi ''use the pdf''
              [(''pdf'', ''/skills/pdf/SKILL.md''), (''img'', ''/skills/img/SKILL.md'')] of
         Inl e \<Rightarrow> e = TypeError
       | Inr r \<Rightarrow> False)
   \<and> bootstrapHook plainSys rejectingApi (userSays ''use the pdf'')
         (extensibleArray [BarePath ''/skills/pdf/SKILL.md'', BarePath ''/skills/img/SKILL.md''])
       = (Inr (),
          extensibleArray [BarePath ''/skills/pdf/SKILL.md'', BarePath ''/skills/img/SKILL.md''])
   \<and> bootstrapHook plainSys failingApi (userSays ''use the pdf'')
         (extensibleArray [BarePath ''/skills/pdf/SKILL.md'', BarePath ''/skills/img/SKILL.md''])
       = (Inr (), extensibleArray [BarePath ''/skills/pdf/SKILL.md'', reportFile [''pdf'']])"
proof -
  have a: "llmUnavailable plainSys rejectingApi ''use the pdf''
     (nonExemptNames rejectingApi
        [(''pdf'', ''/skills/pdf/SKILL.md''), (''img'', ''/skills/img/SKILL.md'')])"
    by code_simp
  have b: "(case selectRelevantSkills plainSys rejectingApi ''use the pdf''
              [(''pdf'', ''/skills/pdf/SKILL.md''), (''img'', ''/skills/img/SKILL.md'')] of
         Inl e \<Rightarrow> e = TypeError
       | Inr r \<Rightarrow> False)"
    by code_simp
  have c: "bootstrapHook plainSys rejectingApi (userSays ''use the pdf'')
         (extensibleArray [BarePath ''/skills/pdf/SKILL.md'', BarePath ''/skills/img/SKILL.md''])
       = (Inr (),
          extensibleArray [BarePath ''/skills/pdf/SKILL.md'', BarePath ''/skills/img/SKILL.md''])"
    by code_simp
  have d: "bootstrapHook plainSys failingApi (userSays ''use the pdf'')
         (extensibleArray [BarePath ''/skills/pdf/SKILL.md'', BarePath ''/skills/img/SKILL.md''])
       = (Inr (), extensibleArray [BarePath ''/skills/pdf/SKILL.md'', reportFile [''pdf'']])"
    by code_simp
  show ?thesis by (rule conjI[OF a conjI[OF b conjI[OF c d]]])
qed

subsection \<open>C10: a raise is contained\<close>

text \<open>
  C10, as stated: whenever an exception is raised anywhere in the orchestration, it is
  caught and the list is left as it was before the invocation. The hook has no way
  back once it has begun to write: on an array that its owner has made non-extensible,
  line 206 empties the list, the \<open>push\<close> of line 207 raises, the handler catches, and
  the list stays empty.
\<close>

theorem raise_in_rewrite_leaves_list_emptied:
  "fst (hookBody plainSys plainApi (userSays ''hello'')
          \<lparr>elems = [BarePath ''AGENTS.md''], extensible = False\<rparr>) = Inl TypeError
   \<and> bootstrapHook plainSys plainApi (userSays ''hello'')
          \<lparr>elems = [BarePath ''AGENTS.md''], extensible = False\<rparr>
       = (Inr (), \<lparr>elems = [], extensible = False\<rparr>)"
  by code_simp

text \<open>
  C10, amended: for every invocation in which an exception is raised during the
  orchestration, the exception is caught at the outermost boundary and the handler
  returns normally to the host; and when the exception is raised before the rewrite of
  the list begins (in the query extraction, the grouping, the inference of the names,
  the Selector or the filtering, lines 167 to 204), the record list is exactly what it
  was before the invocation.
\<close>

theorem raise_is_contained:
  assumes "fst (hookBody y a se arr) = Inl e"
  shows "fst (bootstrapHook y a se arr) = Inr ()
         \<and> (raisedBeforeRewrite y a se arr e \<longrightarrow> snd (bootstrapHook y a se arr) = arr)"
proof -
  have r: "fst (bootstrapHook y a se arr) = Inr ()"
    by (simp add: bootstrapHook_def catchAll_returns)
  have "snd (bootstrapHook y a se arr) = arr" if b: "raisedBeforeRewrite y a se arr e"
  proof -
    from b have q: "queryOf se \<noteq> []"
      and p: "fst (hookPrepare y a (queryOf se) arr) = Inl e"
      by (simp_all add: raisedBeforeRewrite_def)
    have "hookPrepare y a (queryOf se) arr = (Inl e, arr)"
      using p hookPrepare_keeps_array[of y a "queryOf se" arr]
      by (cases "hookPrepare y a (queryOf se) arr") simp
    then have "hookBody y a se arr = (Inl e, arr)"
      using q by (simp add: hookBody_def bind_def)
    then show ?thesis
      by (simp add: bootstrapHook_def catchAll_state)
  qed
  with r show ?thesis by blast
qed

text \<open>The two raises in front of the rewrite, at concrete inputs.\<close>

theorem raise_is_contained_witness:
  "fst (hookBody plainSys plainApi (userSays ''use the pdf'')
          (extensibleArray [BarePath ''/skills/pdf/SKILL.md'', FileObj '''' (Some ''notes'')]))
     = Inl TypeError
   \<and> raisedBeforeRewrite plainSys plainApi (userSays ''use the pdf'')
          (extensibleArray [BarePath ''/skills/pdf/SKILL.md'', FileObj '''' (Some ''notes'')])
          TypeError
   \<and> bootstrapHook plainSys plainApi (userSays ''use the pdf'')
          (extensibleArray [BarePath ''/skills/pdf/SKILL.md'', FileObj '''' (Some ''notes'')])
     = (Inr (),
        extensibleArray [BarePath ''/skills/pdf/SKILL.md'', FileObj '''' (Some ''notes'')])
   \<and> fst (hookBody plainSys rejectingApi (userSays ''use the pdf'')
          (extensibleArray [BarePath ''/skills/pdf/SKILL.md'', BarePath ''AGENTS.md'']))
     = Inl TypeError
   \<and> raisedBeforeRewrite plainSys rejectingApi (userSays ''use the pdf'')
          (extensibleArray [BarePath ''/skills/pdf/SKILL.md'', BarePath ''AGENTS.md''])
          TypeError
   \<and> bootstrapHook plainSys rejectingApi (userSays ''use the pdf'')
          (extensibleArray [BarePath ''/skills/pdf/SKILL.md'', BarePath ''AGENTS.md''])
     = (Inr (), extensibleArray [BarePath ''/skills/pdf/SKILL.md'', BarePath ''AGENTS.md''])"
proof -
  let ?a1 = "extensibleArray [BarePath ''/skills/pdf/SKILL.md'', FileObj '''' (Some ''notes'')]"
  let ?a2 = "extensibleArray [BarePath ''/skills/pdf/SKILL.md'', BarePath ''AGENTS.md'']"
  have h1: "fst (hookBody plainSys plainApi (userSays ''use the pdf'') ?a1) = Inl TypeError"
    by code_simp
  have b1: "raisedBeforeRewrite plainSys plainApi (userSays ''use the pdf'') ?a1 TypeError"
    by code_simp
  have c1: "bootstrapHook plainSys plainApi (userSays ''use the pdf'') ?a1 = (Inr (), ?a1)"
    using raise_is_contained[OF h1] b1
    by (cases "bootstrapHook plainSys plainApi (userSays ''use the pdf'') ?a1") simp
  have h2: "fst (hookBody plainSys rejectingApi (userSays ''use the pdf'') ?a2) = Inl TypeError"
    by code_simp
  have b2: "raisedBeforeRewrite plainSys rejectingApi (userSays ''use the pdf'') ?a2 TypeError"
    by code_simp
  have c2: "bootstrapHook plainSys rejectingApi (userSays ''use the pdf'') ?a2 = (Inr (), ?a2)"
    using raise_is_contained[OF h2] b2
    by (cases "bootstrapHook plainSys rejectingApi (userSays ''use the pdf'') ?a2") simp
  show ?thesis
    by (rule conjI[OF h1 conjI[OF b1 conjI[OF c1 conjI[OF h2 conjI[OF b2 c2]]]]])
qed

end
